theory Spec2Isabelle
  imports Main "HOL-Library.Sublist"
begin

section \<open>The run-time environment of \<^verbatim>\<open>fullCodeTxt.py\<close>\<close>

text \<open>
  The script has one function, \<^verbatim>\<open>extract_and_combine_files\<close>, whose whole effect is
  on the file system and on standard output. Both are made explicit here.

  A \<open>string\<close> is a list of bytes. Text is identified with its UTF-8 encoding, so that a
  Python \<^verbatim>\<open>str\<close> written to the UTF-8 output file is the same byte list; the path
  separator and the line terminators are ASCII, hence working on bytes or on code
  points is the same for everything the script does. A \<^verbatim>\<open>str\<close> without a UTF-8
  encoding (one with a lone surrogate) is outside the model.
\<close>

subsection \<open>File system and standard output\<close>

text \<open>
  What the file system holds at a path, as far as the script can observe it:
  \<^item> \<open>File bs\<close>: a file that opens for reading and holds the bytes \<open>bs\<close>;
  \<^item> \<open>Unreadable msg\<close>: the path exists (\<^verbatim>\<open>os.path.exists\<close> is true) but opening or
    reading it raises an exception \<^verbatim>\<open>e\<close> that is not a \<^verbatim>\<open>UnicodeDecodeError\<close>, with
    \<^verbatim>\<open>str(e) = msg\<close> (a directory, a file without read permission, an I/O error).
  A path that is not in the map does not exist.
\<close>

datatype node = File string | Unreadable string

type_synonym filesystem = "string \<rightharpoonup> node"

text \<open>
  \<open>can_write p\<close> says whether \<^verbatim>\<open>open(p, 'w', encoding='utf-8')\<close> succeeds;
  \<open>stdout\<close> is the list of lines printed so far, one element for each \<^verbatim>\<open>print\<close>.
\<close>

record world =
  files :: filesystem
  can_write :: "string \<Rightarrow> bool"
  stdout :: "string list"

text \<open>
  The exceptions the \<^verbatim>\<open>try\<close> statement distinguishes: \<^verbatim>\<open>UnicodeDecodeError\<close>, and any
  other \<^verbatim>\<open>Exception\<close> with its \<^verbatim>\<open>str(e)\<close>. The only failure that leaves the function is
  the one of opening the output file, which no handler catches.
\<close>

datatype exception = UnicodeDecodeError | Exception string

datatype error = OutputOpenFailure

subsection \<open>The \<^verbatim>\<open>os\<close> module\<close>

text \<open>
  \<^verbatim>\<open>os.path.join\<close>, \<^verbatim>\<open>os.path.basename\<close> and the line separator that a text file
  opened for writing puts in place of each line feed depend on the platform, so
  they are parameters of the model.
\<close>

record os_module =
  path_join :: "string \<Rightarrow> string \<Rightarrow> string"
  path_basename :: "string \<Rightarrow> string"
  linesep :: string

text \<open>
  The POSIX instance, after \<^verbatim>\<open>posixpath.py\<close>:
  \<^verbatim>\<open>
  def join(a, b):
      if b.startswith('/'):            path = b
      elif not a or a.endswith('/'):   path = a + b
      else:                            path = a + '/' + b
      return path
  def basename(p):
      i = p.rfind('/') + 1
      return p[i:]
  \<close>
\<close>

definition posix_join :: "string \<Rightarrow> string \<Rightarrow> string" where
  "posix_join a b =
     (if b \<noteq> [] \<and> hd b = CHR ''/'' then b
      else if a = [] \<or> last a = CHR ''/'' then a @ b
      else a @ ''/'' @ b)"

definition posix_basename :: "string \<Rightarrow> string" where
  "posix_basename p = rev (takeWhile (\<lambda>c. c \<noteq> CHR ''/'') (rev p))"

definition posix :: os_module where
  "posix = \<lparr>path_join = posix_join, path_basename = posix_basename, linesep = ''\<newline>''\<rparr>"

subsection \<open>Text files\<close>

text \<open>
  \<^verbatim>\<open>open(full_path, 'r', encoding='utf-8')\<close> and \<^verbatim>\<open>infile.read()\<close>: the bytes are decoded
  with the strict UTF-8 codec, which raises \<^verbatim>\<open>UnicodeDecodeError\<close> on any byte sequence
  that is not well formed (a stray continuation byte, a truncated or overlong
  sequence, an encoded surrogate, a code point above U+10FFFF). No \<^verbatim>\<open>newline\<close>
  argument is given, so the file is read with universal newlines: \<^verbatim>\<open>\r\n\<close> and a
  lone \<^verbatim>\<open>\r\<close> come back as \<^verbatim>\<open>\n\<close>.
\<close>

definition byte :: "char \<Rightarrow> nat" where
  "byte c = of_char c"

definition in_range :: "nat \<Rightarrow> nat \<Rightarrow> char \<Rightarrow> bool" where
  "in_range lo hi c = (lo \<le> byte c \<and> byte c \<le> hi)"

definition continuation :: "char \<Rightarrow> bool" where
  "continuation c = in_range 0x80 0xBF c"

text \<open>The length of the sequence a lead byte starts; 0 for a byte that starts none.\<close>

definition utf8_seq_len :: "char \<Rightarrow> nat" where
  "utf8_seq_len a =
     (if byte a < 0x80 then 1
      else if in_range 0xC2 0xDF a then 2
      else if in_range 0xE0 0xEF a then 3
      else if in_range 0xF0 0xF4 a then 4
      else 0)"

text \<open>The bytes that follow the lead byte \<open>a\<close> of a sequence.\<close>

definition utf8_tail_ok :: "char \<Rightarrow> string \<Rightarrow> bool" where
  "utf8_tail_ok a t =
     (if byte a < 0x80 then t = []
      else if byte a \<le> 0xDF then (case t of [b] \<Rightarrow> continuation b | _ \<Rightarrow> False)
      else if byte a \<le> 0xEF then
        (case t of
           [b, c] \<Rightarrow>
             in_range (if byte a = 0xE0 then 0xA0 else 0x80)
                      (if byte a = 0xED then 0x9F else 0xBF) b \<and> continuation c
         | _ \<Rightarrow> False)
      else
        (case t of
           [b, c, d] \<Rightarrow>
             in_range (if byte a = 0xF0 then 0x90 else 0x80)
                      (if byte a = 0xF4 then 0x8F else 0xBF) b \<and> continuation c \<and> continuation d
         | _ \<Rightarrow> False))"

function utf8_valid :: "string \<Rightarrow> bool" where
  "utf8_valid [] = True"
| "utf8_valid (a # bs) =
     (utf8_seq_len a \<noteq> 0 \<and> utf8_tail_ok a (take (utf8_seq_len a - 1) bs)
      \<and> utf8_valid (drop (utf8_seq_len a - 1) bs))"
  by pat_completeness auto
termination
  by (relation "measure length") auto

fun universal_newlines :: "string \<Rightarrow> string" where
  "universal_newlines [] = []"
| "universal_newlines [c] = (if c = CHR 0x0D then ''\<newline>'' else [c])"
| "universal_newlines (c # d # cs) =
     (if c = CHR 0x0D \<and> d = CHR ''\<newline>'' then CHR ''\<newline>'' # universal_newlines cs
      else if c = CHR 0x0D then CHR ''\<newline>'' # universal_newlines (d # cs)
      else c # universal_newlines (d # cs))"

text \<open>
  Opening and reading a path as text. The script only reads paths that exist; for
  a path that does not, \<^verbatim>\<open>open\<close> raises \<^verbatim>\<open>FileNotFoundError\<close>, which is an
  \<^verbatim>\<open>Exception\<close>.
\<close>

definition read_text :: "filesystem \<Rightarrow> string \<Rightarrow> exception + string" where
  "read_text fs p =
     (case fs p of
        None \<Rightarrow>
          Inl (Exception (''[Errno 2] No such file or directory: '' @ [CHR 0x27] @ p @ [CHR 0x27]))
      | Some (Unreadable msg) \<Rightarrow> Inl (Exception msg)
      | Some (File bs) \<Rightarrow>
          if utf8_valid bs then Inr (universal_newlines bs) else Inl UnicodeDecodeError)"

definition path_exists :: "filesystem \<Rightarrow> string \<Rightarrow> bool" where
  "path_exists fs p = (fs p \<noteq> None)"

text \<open>
  The output file is a text file opened for writing: \<^verbatim>\<open>outfile.write(s)\<close> appends
  \<open>s\<close> to the text written so far, and on its way to the disk every line feed is
  replaced by the platform's line separator. A write to the open file is taken to
  succeed.
\<close>

definition outfile_write :: "string \<Rightarrow> string \<Rightarrow> string" where
  "outfile_write outfile s = outfile @ s"

definition encode :: "os_module \<Rightarrow> string \<Rightarrow> string" where
  "encode os text = concat (map (\<lambda>c. if c = CHR ''\<newline>'' then linesep os else [c]) text)"

section \<open>The script\<close>

text \<open>The body of the \<^verbatim>\<open>for\<close> loop, lines 6 to 22, for one \<open>file_path\<close>.\<close>

definition loop_body :: "os_module \<Rightarrow> filesystem \<Rightarrow> string \<Rightarrow> string \<Rightarrow> string \<Rightarrow> string" where
  "loop_body os fs project_folder file_path outfile =
     (let full_path = path_join os project_folder file_path in
      if path_exists fs full_path then
        let file_name = path_basename os full_path;
            outfile = outfile_write outfile (file_name @ ''<\<newline>\<newline>'');
            outfile =
              (case read_text fs full_path of
                 Inr content \<Rightarrow> outfile_write outfile content
               | Inl UnicodeDecodeError \<Rightarrow>
                   outfile_write outfile
                     (''Error: Unable to read '' @ full_path @ '' due to encoding issues.\<newline>'')
               | Inl (Exception msg) \<Rightarrow>
                   outfile_write outfile
                     (''Error: An unexpected error occurred while reading '' @ file_name
                        @ '': '' @ msg @ ''\<newline>''))
        in outfile_write outfile (''\<newline>\<newline>END OF '' @ file_name @ ''>\<newline>\<newline>'')
      else outfile_write outfile (''Error: File not found - '' @ full_path @ ''\<newline>\<newline>''))"

text \<open>The \<^verbatim>\<open>for\<close> loop over \<open>file_paths\<close>, threading the text written so far.\<close>

fun for_loop :: "os_module \<Rightarrow> filesystem \<Rightarrow> string \<Rightarrow> string list \<Rightarrow> string \<Rightarrow> string" where
  "for_loop os fs project_folder [] outfile = outfile"
| "for_loop os fs project_folder (file_path # file_paths) outfile =
     for_loop os fs project_folder file_paths (loop_body os fs project_folder file_path outfile)"

text \<open>
  The function. The optional third argument is \<open>None\<close> when the caller leaves it out.
  Opening the output file with mode \<^verbatim>\<open>'w'\<close> creates it or truncates it before the
  loop starts, and an exception raised there leaves the function at once. What the
  loop writes is on the disk when the \<^verbatim>\<open>with\<close> block closes the file, so a path in
  the list that names the output file itself is read as the empty file the open has
  just made. The message is printed after the file is closed.
\<close>

definition default_output_file :: string where
  "default_output_file = ''full_code.txt''"

definition extract_and_combine_files ::
    "os_module \<Rightarrow> world \<Rightarrow> string \<Rightarrow> string list \<Rightarrow> string option \<Rightarrow> error + world" where
  "extract_and_combine_files os w project_folder file_paths output_arg =
     (let output_file = (case output_arg of None \<Rightarrow> default_output_file | Some f \<Rightarrow> f) in
      if \<not> can_write w output_file then Inl OutputOpenFailure
      else
        let fs = (files w)(output_file \<mapsto> File []);
            outfile = for_loop os fs project_folder file_paths [];
            w = w\<lparr>files := fs(output_file \<mapsto> File (encode os outfile))\<rparr>
        in Inr (w\<lparr>stdout := stdout w
                  @ [''File extraction complete. Output saved to '' @ output_file]\<rparr>))"

section \<open>Vocabulary of the specification\<close>

text \<open>
  The specification calls \<open>fileName<\n\n\<close> the header line of an entry and
  \<open>\n\nEND OF fileName>\n\n\<close> its footer, where \<open>fileName\<close> is the last component of
  the resolved path.
\<close>

definition resolved :: "os_module \<Rightarrow> string \<Rightarrow> string \<Rightarrow> string" where
  "resolved os base p = path_join os base p"

definition header :: "os_module \<Rightarrow> string \<Rightarrow> string \<Rightarrow> string" where
  "header os base p = path_basename os (resolved os base p) @ ''<\<newline>\<newline>''"

definition footer :: "os_module \<Rightarrow> string \<Rightarrow> string \<Rightarrow> string" where
  "footer os base p = ''\<newline>\<newline>END OF '' @ path_basename os (resolved os base p) @ ''>\<newline>\<newline>''"

definition not_found_line :: "os_module \<Rightarrow> string \<Rightarrow> string \<Rightarrow> string" where
  "not_found_line os base p = ''Error: File not found - '' @ resolved os base p @ ''\<newline>\<newline>''"

definition encoding_error_line :: "os_module \<Rightarrow> string \<Rightarrow> string \<Rightarrow> string" where
  "encoding_error_line os base p =
     ''Error: Unable to read '' @ resolved os base p @ '' due to encoding issues.\<newline>''"

definition unexpected_error_line :: "os_module \<Rightarrow> string \<Rightarrow> string \<Rightarrow> string \<Rightarrow> string" where
  "unexpected_error_line os base p msg =
     ''Error: An unexpected error occurred while reading ''
       @ path_basename os (resolved os base p) @ '': '' @ msg @ ''\<newline>''"

text \<open>
  The entry of one path, told by what the file system holds there: the not-found
  line alone for a path that does not exist; otherwise header, then the text read
  or the placeholder of the failure, then footer.
\<close>

definition entry :: "os_module \<Rightarrow> filesystem \<Rightarrow> string \<Rightarrow> string \<Rightarrow> string" where
  "entry os fs base p =
     (case fs (resolved os base p) of
        None \<Rightarrow> not_found_line os base p
      | Some (File bs) \<Rightarrow>
          header os base p
            @ (if utf8_valid bs then universal_newlines bs else encoding_error_line os base p)
            @ footer os base p
      | Some (Unreadable msg) \<Rightarrow>
          header os base p @ unexpected_error_line os base p msg @ footer os base p)"



text \<open>The bytes of the file at \<open>p\<close> after a run, if the run returned and \<open>p\<close> is a file.\<close>

definition output_bytes :: "string \<Rightarrow> error + world \<Rightarrow> string option" where
  "output_bytes p r =
     (case r of
        Inl e \<Rightarrow> None
      | Inr w \<Rightarrow> (case files w p of Some (File bs) \<Rightarrow> Some bs | _ \<Rightarrow> None))"

text \<open>The lines printed by a run that returned.\<close>

definition printed :: "error + world \<Rightarrow> string list option" where
  "printed r = (case r of Inl e \<Rightarrow> None | Inr w \<Rightarrow> Some (stdout w))"

subsection \<open>Sample worlds\<close>

text \<open>
  A project directory \<^verbatim>\<open>/proj\<close> on a POSIX system: a text file, a file with
  Windows line ends, a Latin-1 file (\<open>0xE9\<close> alone is not UTF-8), and a directory.
  Nothing else exists; in particular \<^verbatim>\<open>/proj/missing.txt\<close> does not.
\<close>

definition proj_files :: filesystem where
  "proj_files =
     [''/proj'' \<mapsto> Unreadable (''[Errno 21] Is a directory: '' @ [CHR 0x27] @ ''/proj'' @ [CHR 0x27]),
      ''/proj/a.txt'' \<mapsto> File ''hello'',
      ''/proj/crlf.txt'' \<mapsto> File (''a'' @ [CHR 0x0D] @ ''\<newline>b''),
      ''/proj/latin1.txt'' \<mapsto> File [CHR 0xE9],
      ''/proj/src'' \<mapsto>
        Unreadable (''[Errno 21] Is a directory: '' @ [CHR 0x27] @ ''/proj/src'' @ [CHR 0x27])]"

definition proj :: world where
  "proj = \<lparr>files = proj_files, can_write = (\<lambda>p. True), stdout = []\<rparr>"


section \<open>The loop writes one entry for each path\<close>

lemma loop_body_entry:
  "loop_body os fs base p outfile = outfile @ entry os fs base p"
  by (simp add: loop_body_def entry_def resolved_def header_def footer_def not_found_line_def
      encoding_error_line_def unexpected_error_line_def path_exists_def read_text_def
      outfile_write_def Let_def split: option.splits node.splits)

lemma for_loop_entries:
  "for_loop os fs base ps outfile = outfile @ concat (map (entry os fs base) ps)"
  by (induction ps arbitrary: outfile) (simp_all add: loop_body_entry)


lemma encode_posix: "encode posix t = t"
  by (induction t) (simp_all add: encode_def posix_def)

lemma run_returns:
  assumes "can_write w out"
  shows "extract_and_combine_files os w base ps (Some out) =
           Inr (w\<lparr>files := (files w)(out \<mapsto>
                    File (encode os (concat (map (entry os ((files w)(out \<mapsto> File [])) base) ps)))),
                  stdout := stdout w @ [''File extraction complete. Output saved to '' @ out]\<rparr>)"
  using assms by (simp add: extract_and_combine_files_def Let_def for_loop_entries)

lemma run_default:
  "extract_and_combine_files os w base ps None =
     extract_and_combine_files os w base ps (Some ''full_code.txt'')"
  by (simp add: extract_and_combine_files_def default_output_file_def)

lemma run_fails:
  assumes "\<not> can_write w out"
  shows "extract_and_combine_files os w base ps (Some out) = Inl OutputOpenFailure"
  using assms by (simp add: extract_and_combine_files_def)




section \<open>A path that does not exist\<close>

text \<open>
  Claim C1, as the code has it. The header line is written inside the branch of
  \<^verbatim>\<open>os.path.exists\<close>, so a path that does not exist gets neither header nor footer:
  its whole entry is the line \<open>Error: File not found - resolvedPath\<close> and an empty
  line. For \<^verbatim>\<open>missing.txt\<close> under \<^verbatim>\<open>/proj\<close> the output file is exactly
  \<open>Error: File not found - /proj/missing.txt\n\n\<close>.
\<close>

theorem missing_file_entry:
  "(\<not> path_exists fs (path_join os base p) \<longrightarrow>
      loop_body os fs base p outfile =
        outfile @ ''Error: File not found - '' @ path_join os base p @ ''\<newline>\<newline>'')
   \<and> output_bytes ''full_code.txt''
         (extract_and_combine_files posix proj ''/proj'' [''missing.txt''] None) =
       Some ''Error: File not found - /proj/missing.txt\<newline>\<newline>''"
proof
  show "\<not> path_exists fs (path_join os base p) \<longrightarrow>
      loop_body os fs base p outfile =
        outfile @ ''Error: File not found - '' @ path_join os base p @ ''\<newline>\<newline>''"
    by (simp add: loop_body_def outfile_write_def)
  show "output_bytes ''full_code.txt''
         (extract_and_combine_files posix proj ''/proj'' [''missing.txt''] None) =
       Some ''Error: File not found - /proj/missing.txt\<newline>\<newline>''"
    by code_simp
qed

theorem missing_file_entry_witness:
  "\<not> path_exists proj_files (path_join posix ''/proj'' ''missing.txt'')
   \<and> loop_body posix proj_files ''/proj'' ''missing.txt'' ''x'' =
       ''xError: File not found - /proj/missing.txt\<newline>\<newline>''"
proof -
  have h: "\<not> path_exists proj_files (path_join posix ''/proj'' ''missing.txt'')"
    by code_simp
  have j: "path_join posix ''/proj'' ''missing.txt'' = ''/proj/missing.txt''"
    by code_simp
  from missing_file_entry [of proj_files posix "''/proj''" "''missing.txt''" "''x''"] h
  have "loop_body posix proj_files ''/proj'' ''missing.txt'' ''x'' =
        ''x'' @ ''Error: File not found - '' @ path_join posix ''/proj'' ''missing.txt''
          @ ''\<newline>\<newline>''"
    by blast
  with h j show ?thesis by simp
qed

text \<open>
  The output the claim gives for the scenario, with the header line in front, is not
  what the run leaves in the file.
\<close>

theorem missing_file_header_counterexample:
  "output_bytes ''full_code.txt''
     (extract_and_combine_files posix proj ''/proj'' [''missing.txt''] None)
   \<noteq> Some ''missing.txt<\<newline>\<newline>Error: File not found - /proj/missing.txt\<newline>\<newline>''"
  by code_simp

section \<open>One entry for each path, in order\<close>




section \<open>A file that is read\<close>




section \<open>A file that cannot be read\<close>





section \<open>The whole run\<close>




text \<open>
  Claim C7. A run that returned, run again with the same arguments on the world it
  left, returns again and leaves every file as it was, the output file included;
  and any run with the same arguments from a world with the same files returns
  with the same files: the output depends on nothing but the arguments and the file
  system.
\<close>

theorem rerun_same_output:
  "extract_and_combine_files os w base paths output_arg = Inr w1 \<Longrightarrow>
     (\<exists>w2. extract_and_combine_files os w1 base paths output_arg = Inr w2 \<and> files w2 = files w1)
     \<and> (\<forall>v. files v = files w \<and> can_write v = can_write w \<longrightarrow>
           (\<exists>v1. extract_and_combine_files os v base paths output_arg = Inr v1
                 \<and> files v1 = files w1))"
proof -
  assume r: "extract_and_combine_files os w base paths output_arg = Inr w1"
  define out where "out = (case output_arg of None \<Rightarrow> ''full_code.txt'' | Some f \<Rightarrow> f)"
  have arg: "extract_and_combine_files os u base paths output_arg =
             extract_and_combine_files os u base paths (Some out)" for u
    by (cases output_arg) (simp_all add: out_def run_default)
  from r arg have r': "extract_and_combine_files os w base paths (Some out) = Inr w1" by simp
  have cw: "can_write w out"
  proof (rule ccontr)
    assume "\<not> can_write w out"
    from run_fails [OF this] r' show False by simp
  qed
  let ?text = "\<lambda>fs. encode os (concat (map (entry os (fs(out \<mapsto> File [])) base) paths))"
  from run_returns [OF cw, of os base paths] r'
  have w1: "w1 = w\<lparr>files := (files w)(out \<mapsto> File (?text (files w))),
                   stdout := stdout w @ [''File extraction complete. Output saved to '' @ out]\<rparr>"
    by simp
  have cw1: "can_write w1 out" using cw by (simp add: w1)
  have f1: "(files w1)(out \<mapsto> File []) = (files w)(out \<mapsto> File [])" by (simp add: w1)
  have again: "\<exists>w2. extract_and_combine_files os w1 base paths output_arg = Inr w2
                    \<and> files w2 = files w1"
    unfolding arg run_returns [OF cw1] by (simp add: f1) (simp add: w1)
  have other: "\<exists>v1. extract_and_combine_files os v base paths output_arg = Inr v1
                 \<and> files v1 = files w1" if "files v = files w \<and> can_write v = can_write w" for v
  proof -
    from that cw have cv: "can_write v out" by simp
    show ?thesis unfolding arg run_returns [OF cv] using that by (simp add: w1)
  qed
  from again other show ?thesis by blast
qed

theorem rerun_same_output_witness:
  "\<exists>w1 w2. extract_and_combine_files posix proj ''/proj'' [''a.txt'', ''missing.txt''] None = Inr w1
     \<and> extract_and_combine_files posix w1 ''/proj'' [''a.txt'', ''missing.txt''] None = Inr w2
     \<and> files w2 = files w1
     \<and> output_bytes ''full_code.txt'' (Inr w2) =
         Some (''a.txt<\<newline>\<newline>hello\<newline>\<newline>END OF a.txt>\<newline>\<newline>''
               @ ''Error: File not found - /proj/missing.txt\<newline>\<newline>'')"
proof -
  have cw: "can_write proj ''full_code.txt''" by (simp add: proj_def)
  obtain w1 where
    r: "extract_and_combine_files posix proj ''/proj'' [''a.txt'', ''missing.txt''] None = Inr w1"
    by (simp add: run_default run_returns [OF cw])
  have o: "output_bytes ''full_code.txt''
             (extract_and_combine_files posix proj ''/proj'' [''a.txt'', ''missing.txt''] None) =
           Some (''a.txt<\<newline>\<newline>hello\<newline>\<newline>END OF a.txt>\<newline>\<newline>''
               @ ''Error: File not found - /proj/missing.txt\<newline>\<newline>'')"
    by code_simp
  from rerun_same_output [OF r] obtain w2 where
    s: "extract_and_combine_files posix w1 ''/proj'' [''a.txt'', ''missing.txt''] None = Inr w2"
    and f: "files w2 = files w1" by blast
  from o r f have "output_bytes ''full_code.txt'' (Inr w2) =
         Some (''a.txt<\<newline>\<newline>hello\<newline>\<newline>END OF a.txt>\<newline>\<newline>''
               @ ''Error: File not found - /proj/missing.txt\<newline>\<newline>'')"
    by (simp add: output_bytes_def)
  with r s f show ?thesis by blast
qed

text \<open>
  Claim C8. Called without an output argument, and the file \<^verbatim>\<open>full_code.txt\<close> opening
  for writing, the function writes that file and no other, and prints one line
  after the loop, which names it. With an output argument the one line printed
  names that file.
\<close>

theorem default_output_and_message:
  "(can_write w ''full_code.txt'' \<longrightarrow>
      (\<exists>bs. extract_and_combine_files os w base paths None =
         Inr (w\<lparr>files := (files w)(''full_code.txt'' \<mapsto> File bs),
                stdout := stdout w
                  @ [''File extraction complete. Output saved to full_code.txt'']\<rparr>)))
   \<and> (can_write w out \<longrightarrow>
        printed (extract_and_combine_files os w base paths (Some out)) =
          Some (stdout w @ [''File extraction complete. Output saved to '' @ out]))"
proof (intro conjI impI)
  assume cw: "can_write w ''full_code.txt''"
  show "\<exists>bs. extract_and_combine_files os w base paths None =
         Inr (w\<lparr>files := (files w)(''full_code.txt'' \<mapsto> File bs),
                stdout := stdout w
                  @ [''File extraction complete. Output saved to full_code.txt'']\<rparr>)"
    unfolding run_default run_returns [OF cw] by auto
next
  assume cw: "can_write w out"
  show "printed (extract_and_combine_files os w base paths (Some out)) =
          Some (stdout w @ [''File extraction complete. Output saved to '' @ out])"
    unfolding run_returns [OF cw] by (simp add: printed_def)
qed

theorem default_output_and_message_witness:
  "can_write proj ''full_code.txt''
   \<and> output_bytes ''full_code.txt''
        (extract_and_combine_files posix proj ''/proj'' [''a.txt''] None) \<noteq> None
   \<and> printed (extract_and_combine_files posix proj ''/proj'' [''a.txt''] None) =
        Some [''File extraction complete. Output saved to full_code.txt'']"
proof -
  have cw: "can_write proj ''full_code.txt''" by (simp add: proj_def)
  from default_output_and_message [where w = proj and os = posix and base = "''/proj''"
      and paths = "[''a.txt'']" and out = "''full_code.txt''"] cw
  obtain bs where "extract_and_combine_files posix proj ''/proj'' [''a.txt''] None =
         Inr (proj\<lparr>files := (files proj)(''full_code.txt'' \<mapsto> File bs),
                stdout := stdout proj
                  @ [''File extraction complete. Output saved to full_code.txt'']\<rparr>)"
    by blast
  then show ?thesis using cw by (simp add: output_bytes_def printed_def proj_def)
qed

text \<open>
  Claim C9. For the empty list, and the output file opening for writing, the run
  leaves the output file empty, changes no other file and prints the completion
  message. The file is opened and truncated before the loop whatever the list is:
  what was at the output path before the run has no effect on the result.
\<close>

theorem empty_list_truncates:
  "can_write w out \<Longrightarrow>
     extract_and_combine_files os w base [] (Some out) =
       Inr (w\<lparr>files := (files w)(out \<mapsto> File []),
              stdout := stdout w @ [''File extraction complete. Output saved to '' @ out]\<rparr>)
     \<and> (\<forall>old. extract_and_combine_files os (w\<lparr>files := (files w)(out := old)\<rparr>) base paths
                 (Some out) =
               extract_and_combine_files os w base paths (Some out))"
proof
  assume cw: "can_write w out"
  show "extract_and_combine_files os w base [] (Some out) =
       Inr (w\<lparr>files := (files w)(out \<mapsto> File []),
              stdout := stdout w @ [''File extraction complete. Output saved to '' @ out]\<rparr>)"
    unfolding run_returns [OF cw] by (simp add: encode_def)
  show "\<forall>old. extract_and_combine_files os (w\<lparr>files := (files w)(out := old)\<rparr>) base paths
                 (Some out) =
               extract_and_combine_files os w base paths (Some out)"
  proof
    fix old
    have cw': "can_write (w\<lparr>files := (files w)(out := old)\<rparr>) out" using cw by simp
    show "extract_and_combine_files os (w\<lparr>files := (files w)(out := old)\<rparr>) base paths
            (Some out) =
          extract_and_combine_files os w base paths (Some out)"
      unfolding run_returns [OF cw] run_returns [OF cw'] by simp
  qed
qed

theorem empty_list_truncates_witness:
  "can_write proj ''/proj/a.txt''
   \<and> files proj ''/proj/a.txt'' = Some (File ''hello'')
   \<and> output_bytes ''/proj/a.txt''
       (extract_and_combine_files posix proj ''/proj'' [] (Some ''/proj/a.txt'')) = Some []
   \<and> printed (extract_and_combine_files posix proj ''/proj'' [] (Some ''/proj/a.txt'')) =
       Some [''File extraction complete. Output saved to /proj/a.txt'']"
proof -
  have cw: "can_write proj ''/proj/a.txt''" by (simp add: proj_def)
  have f: "files proj ''/proj/a.txt'' = Some (File ''hello'')"
    by (simp add: proj_def proj_files_def)
  from empty_list_truncates [OF cw, of posix "''/proj''"]
  have "extract_and_combine_files posix proj ''/proj'' [] (Some ''/proj/a.txt'') =
       Inr (proj\<lparr>files := (files proj)(''/proj/a.txt'' \<mapsto> File []),
              stdout := stdout proj
                @ [''File extraction complete. Output saved to '' @ ''/proj/a.txt'']\<rparr>)"
    by blast
  then show ?thesis using cw f by (simp add: output_bytes_def printed_def proj_def)
qed



end
